theory Spec2Isabelle
  imports Main "HOL-Library.AList" "HOL-Library.Word"
begin

section \<open>JavaScript values carried by the messages\<close>

text \<open>
  The coordinator (converter.js, the first variant in src/unnamed/part_000) reads the
  fields of structured-cloned message payloads.  The values it can meet are modelled by
  \<open>jsval\<close>: the primitives, an ArrayBuffer (its bytes), a typed view over an ArrayBuffer
  (the bytes of the whole underlying buffer, the view's byteOffset and its byteLength)
  and a plain object (its own properties).  Strings are ASCII; numbers are the integral
  ones (NaN, the only other falsy number, is left out).
\<close>

type_synonym bytes = "8 word list"

datatype jsval =
    JUndefined
  | JNull
  | JBool bool
  | JNum int
  | JStr string
  | JArrayBuffer bytes
  | JView bytes nat nat
  | JObj "(string \<times> jsval) list"

text \<open>JavaScript's ToBoolean, used by \<open>!x\<close>, \<open>x || y\<close>, \<open>x && y\<close> and \<open>if (x)\<close>.\<close>

fun truthy :: "jsval \<Rightarrow> bool" where
  "truthy JUndefined = False"
| "truthy JNull = False"
| "truthy (JBool b) = b"
| "truthy (JNum n) = (n \<noteq> 0)"
| "truthy (JStr s) = (s \<noteq> [])"
| "truthy (JArrayBuffer b) = True"
| "truthy (JView b off len) = True"
| "truthy (JObj fs) = True"

text \<open>
  The primitive values.  A Map compares primitive keys by value; every other value is
  an object, and a Map compares objects by identity.
\<close>

fun primitive :: "jsval \<Rightarrow> bool" where
  "primitive (JArrayBuffer b) = False"
| "primitive (JView b off len) = False"
| "primitive (JObj fs) = False"
| "primitive v = True"

text \<open>
  Property read \<open>v.k\<close>.  The source only reads properties of values it has already
  found truthy (\<open>data && data.type\<close>, \<open>if (!inputBuffer) throw\<close>), so the TypeError of
  a read on null or undefined is never reached; a missing property reads as undefined.
\<close>

fun get_prop :: "jsval \<Rightarrow> string \<Rightarrow> jsval" where
  "get_prop (JObj fs) k = (case map_of fs k of Some v \<Rightarrow> v | None \<Rightarrow> JUndefined)"
| "get_prop (JView buf off len) k =
     (if k = ''buffer'' then JArrayBuffer buf
      else if k = ''byteOffset'' then JNum (int off)
      else if k = ''byteLength'' then JNum (int len)
      else JUndefined)"
| "get_prop (JArrayBuffer b) k =
     (if k = ''byteLength'' then JNum (int (length b)) else JUndefined)"
| "get_prop v k = JUndefined"

text \<open>The bytes a typed view itself covers: \<open>byteLength\<close> bytes from \<open>byteOffset\<close>.\<close>

definition view_bytes :: "bytes \<Rightarrow> nat \<Rightarrow> nat \<Rightarrow> bytes" where
  "view_bytes buf off len = take len (drop off buf)"

text \<open>\<open>a || b\<close> on values.\<close>

definition js_or :: "jsval \<Rightarrow> jsval \<Rightarrow> jsval" where
  "js_or a b = (if truthy a then a else b)"

text \<open>\<open>String.prototype.toLowerCase\<close> on ASCII.\<close>

definition lower_char :: "char \<Rightarrow> char" where
  "lower_char c =
     (case map_of (zip ''ABCDEFGHIJKLMNOPQRSTUVWXYZ'' ''abcdefghijklmnopqrstuvwxyz'') c of
        Some l \<Rightarrow> l
      | None \<Rightarrow> c)"

definition toLowerCase :: "string \<Rightarrow> string" where
  "toLowerCase s = map lower_char s"

text \<open>\<open>Number.prototype.toString\<close> on a non-negative integer (\<open>Date.now().toString()\<close>).\<close>

definition digit :: "nat \<Rightarrow> char" where
  "digit d = ''0123456789'' ! d"

function toString_nat :: "nat \<Rightarrow> string" where
  "toString_nat n =
     (if n < 10 then [digit n] else toString_nat (n div 10) @ [digit (n mod 10)])"
  by pat_completeness auto
termination
  by (relation "measure id") auto

declare toString_nat.simps [simp del]

text \<open>Thrown values: the source only ever reads their \<open>message\<close>.\<close>

datatype js_error = Error string | TypeError string | ErrnoError string

fun message :: "js_error \<Rightarrow> string" where
  "message (Error m) = m"
| "message (TypeError m) = m"
| "message (ErrnoError m) = m"

section \<open>Origin Gate\<close>

text \<open>
  \<open>allowedOriginsParam.split(',').map(o => o.trim())\<close>: the pieces between commas, each
  with its leading and trailing white space removed.
\<close>

fun split_on :: "char \<Rightarrow> string \<Rightarrow> string list" where
  "split_on d [] = [[]]"
| "split_on d (c # cs) =
     (if c = d then [] # split_on d cs
      else (case split_on d cs of [] \<Rightarrow> [[c]] | w # ws \<Rightarrow> (c # w) # ws))"

definition is_space :: "char \<Rightarrow> bool" where
  "is_space c = (let n = (of_char c :: nat) in (9 \<le> n \<and> n \<le> 13) \<or> n = 32)"

definition trim :: "string \<Rightarrow> string" where
  "trim s = rev (dropWhile is_space (rev (dropWhile is_space s)))"

text \<open>
  The whitelist, from \<open>urlParams.get('origins')\<close>: null when the parameter is absent (None)
  or empty (the empty string is falsy), the trimmed pieces otherwise.
\<close>

definition allowedOrigins_of :: "string option \<Rightarrow> string list option" where
  "allowedOrigins_of allowedOriginsParam =
     (case allowedOriginsParam of
        None \<Rightarrow> None
      | Some p \<Rightarrow> if p = [] then None else Some (map trim (split_on CHR '','' p)))"

definition isOriginAllowed :: "string list option \<Rightarrow> string \<Rightarrow> bool" where
  "isOriginAllowed allowedOrigins origin =
     (case allowedOrigins of
        None \<Rightarrow> True
      | Some wl \<Rightarrow> if origin = ''null'' then True else origin \<in> set wl)"

definition getTargetOrigin :: "string \<Rightarrow> string" where
  "getTargetOrigin eventOrigin =
     (if eventOrigin = ''null'' \<or> eventOrigin = [] then ''*'' else eventOrigin)"

section \<open>The coordinator's state\<close>

text \<open>
  Windows that can be posted to: the embedding parent (\<open>window.parent\<close>) and the
  \<open>event.source\<close> handles of message events.
\<close>

datatype window = Parent | Win nat

record blob =
  blob_data :: bytes
  blob_type :: string

text \<open>
  Messages the coordinator posts to a window: \<open>{type:'ready'}\<close>,
  \<open>{type:'result', blob, format, requestId}\<close>, \<open>{type:'error', error, requestId}\<close>
  (the initialisation error has no requestId property: it reads as undefined) and
  \<open>{type:'pong', ready, requestId}\<close>.
\<close>

datatype out_msg =
    Ready_msg
  | Result_msg blob string jsval
  | Error_msg string jsval
  | Pong_msg bool jsval

text \<open>
  Messages of the worker thread on \<open>zHM.thrPort\<close>, by their \<open>cmd\<close>:
  \<open>'ZetaHelper::thr_started'\<close>, \<open>'ready'\<close>, \<open>'converted'\<close> (from, to, format,
  requestId), \<open>'error'\<close> (error, requestId), and any other cmd.
\<close>

datatype worker_msg =
    Thr_started
  | Ready
  | Converted string string string jsval
  | Worker_error string jsval
  | Other_cmd string

text \<open>
  What the coordinator posts on \<open>zHM.thrPort\<close>: the script injection
  \<open>{cmd:'ZetaHelper::run_thr_script', threadJs, threadJsType}\<close> (the blob URL of
  \<open>createOfficeThreadBlob()\<close> is opaque; the threadJsType is kept) and the conversion
  command \<open>{cmd:'convert', from, to, format, requestId}\<close>.
\<close>

datatype chan_cmd =
    Run_thr_script string
  | Convert string string string jsval

datatype chan_event = Recv worker_msg | Send chan_cmd

text \<open>
  The port: whether the coordinator's \<open>onmessage\<close> handler is attached, and the record
  of what the handler received and what was posted, in order.
\<close>

record port =
  onmessage :: bool
  traffic :: "chan_event list"

text \<open>
  The engine handle \<open>zHM\<close>: its \<open>thrPort\<close> (absent until the engine creates it) and the
  files of its virtual filesystem \<open>FS\<close>, by path.
\<close>

record zhm =
  thrPort :: "port option"
  FS :: "(string \<times> bytes) list"

record request =
  source :: window
  targetOrigin :: string
  format :: string

text \<open>
  The module's globals.  \<open>pendingRequests\<close> is a JavaScript Map, kept as the list
  of its entries.  \<open>outbox\<close> records every \<open>postMessage\<close> to a window: target, message,
  targetOrigin.  \<open>timers\<close> counts the pending \<open>setTimeout(setupMessageHandler, 100)\<close>
  callbacks.
\<close>

record state =
  allowedOrigins :: "string list option"
  embedded :: bool
  zHM :: "zhm option"
  moduleReady :: bool
  pendingRequests :: "(jsval \<times> request) list"
  statusText :: string
  spinnerHidden :: bool
  outbox :: "(window \<times> out_msg \<times> string) list"
  timers :: nat

subsection \<open>The Map of pending requests\<close>

text \<open>
  \<open>pendingRequests.get(k)\<close>, \<open>.set(k, v)\<close> and \<open>.delete(k)\<close>, where the key \<open>k\<close> is
  a request id that has just arrived in a message (or the generated string).  On a
  primitive key the Map works by value: \<open>get\<close> finds the entry of that key, \<open>set\<close>
  replaces the value of a present key in place and appends an absent one, \<open>delete\<close>
  removes the entry.  A key that is an object is, by structured cloning, a new object
  in every message, identical to no key of the Map: \<open>get\<close> finds nothing, \<open>delete\<close>
  removes nothing and \<open>set\<close> adds an entry.  The program never reads the order of the
  entries; the entry of a new object key is put in front, so that the entry just set is
  the one found under that key in the list.
\<close>

definition Map_get :: "(jsval \<times> request) list \<Rightarrow> jsval \<Rightarrow> request option" where
  "Map_get m k = (if primitive k then map_of m k else None)"

definition Map_set :: "jsval \<Rightarrow> request \<Rightarrow> (jsval \<times> request) list \<Rightarrow> (jsval \<times> request) list" where
  "Map_set k v m = (if primitive k then AList.update k v m else (k, v) # m)"

definition Map_delete :: "jsval \<Rightarrow> (jsval \<times> request) list \<Rightarrow> (jsval \<times> request) list" where
  "Map_delete k m = (if primitive k then AList.delete k m else m)"

subsection \<open>The format tables\<close>

definition formatExtensions :: "(string \<times> string) list" where
  "formatExtensions =
     [(''pdf'', ''pdf''), (''docx'', ''docx''), (''xlsx'', ''xlsx''), (''pptx'', ''pptx''),
      (''odt'', ''odt''), (''ods'', ''ods''), (''odp'', ''odp''), (''html'', ''html''),
      (''txt'', ''txt''), (''rtf'', ''rtf''), (''png'', ''png''), (''jpg'', ''jpg'')]"

definition mimeTypes :: "(string \<times> string) list" where
  "mimeTypes =
     [(''pdf'', ''application/pdf''),
      (''docx'', ''application/vnd.openxmlformats-officedocument.wordprocessingml.document''),
      (''xlsx'', ''application/vnd.openxmlformats-officedocument.spreadsheetml.sheet''),
      (''pptx'', ''application/vnd.openxmlformats-officedocument.presentationml.presentation''),
      (''odt'', ''application/vnd.oasis.opendocument.text''),
      (''ods'', ''application/vnd.oasis.opendocument.spreadsheet''),
      (''odp'', ''application/vnd.oasis.opendocument.presentation''),
      (''html'', ''text/html''),
      (''txt'', ''text/plain''),
      (''rtf'', ''application/rtf''),
      (''png'', ''image/png''),
      (''jpg'', ''image/jpeg'')]"

text \<open>
  The tables are object literals, so a key that is not an own property is looked up in
  \<open>Object.prototype\<close>.  Its properties are functions, and \<open>__proto__\<close> reads as
  \<open>Object.prototype\<close> itself: all truthy.  The program only uses the looked-up value
  as a string (in a template literal, as the type of a Blob); the list gives each
  inherited property with that string.  The text of a native function is defined by the
  engine: it is given as V8 prints it.
\<close>

definition native_function :: "string \<Rightarrow> string" where
  "native_function name = ''function '' @ name @ ''() { [native code] }''"

definition object_prototype :: "(string \<times> string) list" where
  "object_prototype =
     [(''constructor'', native_function ''Object''),
      (''__defineGetter__'', native_function ''__defineGetter__''),
      (''__defineSetter__'', native_function ''__defineSetter__''),
      (''hasOwnProperty'', native_function ''hasOwnProperty''),
      (''__lookupGetter__'', native_function ''__lookupGetter__''),
      (''__lookupSetter__'', native_function ''__lookupSetter__''),
      (''isPrototypeOf'', native_function ''isPrototypeOf''),
      (''propertyIsEnumerable'', native_function ''propertyIsEnumerable''),
      (''toString'', native_function ''toString''),
      (''valueOf'', native_function ''valueOf''),
      (''__proto__'', ''[object Object]''),
      (''toLocaleString'', native_function ''toLocaleString'')]"

text \<open>
  \<open>table[key] || fallback\<close>: the own property, else the inherited one, else (the read
  gives undefined) the fallback.  No value of the tables is the empty string.
\<close>

definition lookup_or :: "(string \<times> string) list \<Rightarrow> string \<Rightarrow> string \<Rightarrow> string" where
  "lookup_or table k fallback =
     (case map_of (table @ object_prototype) k of Some v \<Rightarrow> v | None \<Rightarrow> fallback)"

text \<open>
  \<open>new Blob([data], {type})\<close>: the type is kept in ASCII lower case, and is empty when
  it has a character outside U+0020 to U+007E.
\<close>

definition printable :: "char \<Rightarrow> bool" where
  "printable c = (let n = (of_char c :: nat) in 32 \<le> n \<and> n \<le> 126)"

definition new_Blob :: "bytes \<Rightarrow> string \<Rightarrow> blob" where
  "new_Blob d t =
     \<lparr>blob_data = d, blob_type = (if list_all printable t then toLowerCase t else [])\<rparr>"

subsection \<open>The virtual filesystem\<close>

text \<open>
  \<open>FS.readFile\<close> and \<open>FS.unlink\<close> throw on a path that does not exist;
  \<open>FS.writeFile\<close> creates or replaces the file (\<open>/tmp\<close> is always writable).
\<close>

definition readFile :: "(string \<times> bytes) list \<Rightarrow> string \<Rightarrow> js_error + bytes" where
  "readFile fs path =
     (case map_of fs path of None \<Rightarrow> Inl (ErrnoError ''FS error'') | Some d \<Rightarrow> Inr d)"

definition unlink :: "(string \<times> bytes) list \<Rightarrow> string \<Rightarrow> js_error + (string \<times> bytes) list" where
  "unlink fs path =
     (case map_of fs path of
        None \<Rightarrow> Inl (ErrnoError ''FS error'')
      | Some d \<Rightarrow> Inr (AList.delete path fs))"

definition writeFile :: "(string \<times> bytes) list \<Rightarrow> string \<Rightarrow> bytes \<Rightarrow> (string \<times> bytes) list" where
  "writeFile fs path d = AList.update path d fs"

subsection \<open>Status display and posting\<close>

text \<open>
  \<open>updateStatus\<close> sets the status text and hides the spinner unless \<open>showSpinner\<close>.
\<close>

definition updateStatus :: "state \<Rightarrow> string \<Rightarrow> bool \<Rightarrow> state" where
  "updateStatus s msg showSpinner = s\<lparr>statusText := msg, spinnerHidden := \<not> showSpinner\<rparr>"

text \<open>\<open>w.postMessage(m, targetOrigin)\<close>: the messages and origins posted here are
  always cloneable and well-formed, so the call does not throw.\<close>

definition postMessage :: "state \<Rightarrow> window \<Rightarrow> out_msg \<Rightarrow> string \<Rightarrow> state" where
  "postMessage s w m tgt = s\<lparr>outbox := outbox s @ [(w, m, tgt)]\<rparr>"

definition notifyParent :: "state \<Rightarrow> out_msg \<Rightarrow> string \<Rightarrow> state" where
  "notifyParent s m tgt = (if embedded s then postMessage s Parent m tgt else s)"

text \<open>\<open>zHM.thrPort.postMessage(cmd)\<close> where the port exists.\<close>

definition port_post :: "port \<Rightarrow> chan_cmd \<Rightarrow> port" where
  "port_post p c = p\<lparr>traffic := traffic p @ [Send c]\<rparr>"

section \<open>Replies of the worker: handleWorkerMessage\<close>

text \<open>
  \<open>zHM.FS.readFile(to)\<close>, the first statement of the try block of the \<open>'converted'\<close>
  case: a TypeError when \<open>zHM\<close> is null, the filesystem's error when the file is
  missing, the engine handle and the bytes otherwise.
\<close>

definition read_output :: "state \<Rightarrow> string \<Rightarrow> js_error + (zhm \<times> bytes)" where
  "read_output s toP =
     (case zHM s of
        None \<Rightarrow> Inl (TypeError ''Cannot read properties of null'')
      | Some z \<Rightarrow>
          (case readFile (FS z) toP of Inl e \<Rightarrow> Inl e | Inr d \<Rightarrow> Inr (z, d)))"

text \<open>
  \<open>try { FS.unlink(from); FS.unlink(to); } catch (cleanupErr) {}\<close>: when the first
  unlink throws, the second is skipped; every error is swallowed.
\<close>

definition cleanup :: "(string \<times> bytes) list \<Rightarrow> string \<Rightarrow> string \<Rightarrow> (string \<times> bytes) list" where
  "cleanup fs fromP toP =
     (case unlink fs fromP of
        Inl e \<Rightarrow> fs
      | Inr fs1 \<Rightarrow> (case unlink fs1 toP of Inl e \<Rightarrow> fs1 | Inr fs2 \<Rightarrow> fs2))"

fun handleWorkerMessage :: "state \<Rightarrow> worker_msg \<Rightarrow> state" where
  "handleWorkerMessage s Ready =
     notifyParent
       (updateStatus (s\<lparr>moduleReady := True\<rparr>) ''Ready for document conversion'' False)
       Ready_msg ''*''"
| "handleWorkerMessage s (Converted fromP toP fmt requestId) =
     (case Map_get (pendingRequests s) requestId of
        None \<Rightarrow> s
      | Some request \<Rightarrow>
          (let s' =
             (case read_output s toP of
                Inr (z, outputData) \<Rightarrow>
                  (let s1 = s\<lparr>zHM := Some (z\<lparr>FS := cleanup (FS z) fromP toP\<rparr>)\<rparr>;
                       mimeType = lookup_or mimeTypes fmt ''application/octet-stream'';
                       blob = new_Blob outputData mimeType;
                       s2 = updateStatus s1 ''Conversion complete'' False
                   in postMessage s2 (source request) (Result_msg blob fmt requestId)
                        (targetOrigin request))
              | Inl err \<Rightarrow>
                  postMessage s (source request) (Error_msg (message err) requestId)
                    (targetOrigin request))
           in s'\<lparr>pendingRequests := Map_delete requestId (pendingRequests s')\<rparr>))"
| "handleWorkerMessage s (Worker_error error requestId) =
     (case Map_get (pendingRequests s) requestId of
        None \<Rightarrow> s
      | Some request \<Rightarrow>
          (let s1 = updateStatus s (''Conversion error: '' @ error) False;
               s2 = postMessage s1 (source request) (Error_msg error requestId)
                      (targetOrigin request)
           in s2\<lparr>pendingRequests := Map_delete requestId (pendingRequests s2)\<rparr>))"
| "handleWorkerMessage s Thr_started = s"
| "handleWorkerMessage s (Other_cmd c) = s"

section \<open>convertDocument\<close>

text \<open>
  The result is the state after the call and the error the call throws, if any.  The
  not-initialized check throws before any effect.  Inside the try block a throw leaves
  the effects made before it, and the catch block updates the status and rethrows.
  \<open>outputFormat.toLowerCase()\<close> is a TypeError unless \<open>outputFormat\<close> is a string;
  \<open>zHM.thrPort.postMessage\<close> is a TypeError when the port is absent.
\<close>

definition convert_body ::
  "state \<Rightarrow> zhm \<Rightarrow> bytes \<Rightarrow> jsval \<Rightarrow> jsval \<Rightarrow> window \<Rightarrow> string \<Rightarrow> state \<times> js_error option" where
  "convert_body s z arrayBuffer outputFormat requestId src tgt =
     (let inputData = arrayBuffer;
          inputPath = ''/tmp/input''
      in case outputFormat of
           JStr f \<Rightarrow>
             (let extension = lookup_or formatExtensions (toLowerCase f) ''pdf'';
                  outputPath = ''/tmp/output.'' @ extension;
                  z1 = z\<lparr>FS := writeFile (FS z) inputPath inputData\<rparr>;
                  s1 = s\<lparr>zHM := Some z1\<rparr>;
                  s2 = s1\<lparr>pendingRequests :=
                          Map_set requestId
                            \<lparr>source = src, targetOrigin = tgt, format = f\<rparr>
                            (pendingRequests s1)\<rparr>
              in case thrPort z1 of
                   None \<Rightarrow> (s2, Some (TypeError ''Cannot read properties of undefined''))
                 | Some p \<Rightarrow>
                     (s2\<lparr>zHM := Some (z1\<lparr>thrPort :=
                            Some (port_post p (Convert inputPath outputPath f requestId))\<rparr>)\<rparr>,
                      None))
         | _ \<Rightarrow> (s, Some (TypeError ''outputFormat.toLowerCase is not a function'')))"

definition convertDocument ::
  "state \<Rightarrow> bytes \<Rightarrow> jsval \<Rightarrow> jsval \<Rightarrow> window \<Rightarrow> string \<Rightarrow> state \<times> js_error option" where
  "convertDocument s arrayBuffer outputFormat requestId src tgt =
     (case (moduleReady s, zHM s) of
        (True, Some z) \<Rightarrow>
          (let s1 = updateStatus s ''Converting document...'' True
           in case convert_body s1 z arrayBuffer outputFormat requestId src tgt of
                (s2, None) \<Rightarrow> (s2, None)
              | (s2, Some error) \<Rightarrow>
                  (updateStatus s2 (''Conversion error: '' @ message error) False, Some error))
      | _ \<Rightarrow> (s, Some (Error ''ZetaJS not initialized'')))"

definition isReady :: "state \<Rightarrow> bool" where
  "isReady s = moduleReady s"

section \<open>The window's message listener\<close>

text \<open>
  The chain of \<open>instanceof\<close> tests on the payload: an ArrayBuffer is taken as it is, a
  typed view gives its \<open>.buffer\<close> (the whole underlying buffer), an object gives its
  \<open>.buffer\<close> property when that is an ArrayBuffer; anything else is refused (None).
\<close>

fun to_arrayBuffer :: "jsval \<Rightarrow> bytes option" where
  "to_arrayBuffer (JArrayBuffer b) = Some b"
| "to_arrayBuffer (JView buf off len) = Some buf"
| "to_arrayBuffer (JObj fs) =
     (case get_prop (JObj fs) ''buffer'' of JArrayBuffer b \<Rightarrow> Some b | _ \<Rightarrow> None)"
| "to_arrayBuffer v = None"

text \<open>
  The try block of the convert branch; \<open>now\<close> is the reading of \<open>Date.now()\<close> and
  \<open>inputBuffer_of data\<close> is \<open>data.buffer || data.file\<close>.
\<close>

definition inputBuffer_of :: "jsval \<Rightarrow> jsval" where
  "inputBuffer_of data = js_or (get_prop data ''buffer'') (get_prop data ''file'')"

definition convert_try ::
  "state \<Rightarrow> nat \<Rightarrow> jsval \<Rightarrow> window \<Rightarrow> string \<Rightarrow> state \<times> js_error option" where
  "convert_try s now data src tgt =
     (let inputBuffer = inputBuffer_of data
      in if \<not> truthy inputBuffer then (s, Some (Error ''No document buffer provided''))
         else case to_arrayBuffer inputBuffer of
                None \<Rightarrow>
                  (s, Some (Error ''Invalid buffer type: expected ArrayBuffer or TypedArray''))
              | Some arrayBuffer \<Rightarrow>
                  (let outputFormat = js_or (get_prop data ''format'') (JStr ''pdf'');
                       requestId = js_or (get_prop data ''requestId'') (JStr (toString_nat now))
                   in convertDocument s arrayBuffer outputFormat requestId src tgt))"

text \<open>
  The listener on one message event \<open>{data, origin, source}\<close>.  It is an async function,
  but \<open>convertDocument\<close> has no await inside and the continuation after
  \<open>await convertDocument(...)\<close> runs as a microtask, before any other event is handled:
  the listener is one atomic step.
\<close>

definition window_onmessage :: "state \<Rightarrow> nat \<Rightarrow> jsval \<Rightarrow> string \<Rightarrow> window \<Rightarrow> state" where
  "window_onmessage s now data origin src =
     (if \<not> isOriginAllowed (allowedOrigins s) origin then s
      else
        (let tgt = getTargetOrigin origin;
             s1 = (if truthy data \<and> get_prop data ''type'' = JStr ''convert'' then
                     (case convert_try s now data src tgt of
                        (s', None) \<Rightarrow> s'
                      | (s', Some error) \<Rightarrow>
                          postMessage s' src
                            (Error_msg (message error) (get_prop data ''requestId'')) tgt)
                   else s)
         in if truthy data \<and> get_prop data ''type'' = JStr ''ping'' then
              postMessage s1 src (Pong_msg (moduleReady s1) (get_prop data ''requestId'')) tgt
            else s1))"

section \<open>Worker Handshake: initZetaJS and the port's handler\<close>

text \<open>
  \<open>initZetaJS\<close>: \<open>failure\<close> is the message of the error thrown by the dynamic import or
  by the construction of \<open>ZetaHelperMain\<close>, if any.  On success \<open>zHM\<close> is the new engine
  handle, whose port does not exist yet and whose staging files are none.
\<close>

definition initZetaJS :: "state \<Rightarrow> string option \<Rightarrow> state \<times> bool" where
  "initZetaJS s failure =
     (let s1 = updateStatus s ''Loading ZetaJS module...'' True
      in case failure of
           None \<Rightarrow>
             ((updateStatus s1 ''Initializing LibreOffice WASM...'' True)
                \<lparr>zHM := Some \<lparr>thrPort = None, FS = []\<rparr>\<rparr>, True)
         | Some msg \<Rightarrow>
             (notifyParent (updateStatus s1 (''Error initializing: '' @ msg) False)
                (Error_msg msg JUndefined) ''*'', False))"

text \<open>
  \<open>setupMessageHandler\<close>: while the port is absent, schedule another attempt; once it
  is there, attach the handler.
\<close>

definition setupMessageHandler :: "state \<Rightarrow> state" where
  "setupMessageHandler s =
     (case zHM s of
        None \<Rightarrow> s
      | Some z \<Rightarrow>
          (case thrPort z of
             None \<Rightarrow> s\<lparr>timers := Suc (timers s)\<rparr>
           | Some p \<Rightarrow> s\<lparr>zHM := Some (z\<lparr>thrPort := Some (p\<lparr>onmessage := True\<rparr>)\<rparr>)\<rparr>))"

text \<open>
  The attached handler \<open>zHM.thrPort.onmessage\<close>, on a message that the port has already
  recorded as received: the script injection on \<open>'ZetaHelper::thr_started'\<close>,
  \<open>handleWorkerMessage\<close> on everything else.
\<close>

definition thrPort_onmessage :: "state \<Rightarrow> worker_msg \<Rightarrow> state" where
  "thrPort_onmessage s m =
     (case m of
        Thr_started \<Rightarrow>
          (case zHM s of
             None \<Rightarrow> s
           | Some z \<Rightarrow>
               (case thrPort z of
                  None \<Rightarrow> s
                | Some p \<Rightarrow>
                    s\<lparr>zHM := Some (z\<lparr>thrPort :=
                          Some (port_post p (Run_thr_script ''module''))\<rparr>)\<rparr>))
      | _ \<Rightarrow> handleWorkerMessage s m)"

text \<open>
  A message of the worker arriving on the port: it reaches the coordinator only when
  its handler is attached; the port then records the receipt and runs the handler.
\<close>

definition deliver :: "state \<Rightarrow> worker_msg \<Rightarrow> state" where
  "deliver s m =
     (case zHM s of
        None \<Rightarrow> s
      | Some z \<Rightarrow>
          (case thrPort z of
             None \<Rightarrow> s
           | Some p \<Rightarrow>
               if onmessage p then
                 thrPort_onmessage
                   (s\<lparr>zHM := Some (z\<lparr>thrPort := Some (p\<lparr>traffic := traffic p @ [Recv m]\<rparr>)\<rparr>)\<rparr>) m
               else s))"

section \<open>The event loop\<close>

text \<open>
  Everything that can happen to the page: a call of \<open>initZetaJS\<close>, the callback of
  \<open>zHM.start\<close>, a polling timer firing, the engine creating its port, a message of the
  worker, the engine in the worker storing a file in the shared filesystem, a message
  event on the window.
\<close>

datatype event =
    Init "string option"
  | Start_callback
  | Timer_fired
  | Port_created
  | Worker_message worker_msg
  | Engine_wrote string bytes
  | Window_message nat jsval string window

fun step :: "state \<Rightarrow> event \<Rightarrow> state" where
  "step s (Init failure) = fst (initZetaJS s failure)"
| "step s Start_callback = setupMessageHandler s"
| "step s Timer_fired =
     (if timers s = 0 then s else setupMessageHandler (s\<lparr>timers := timers s - 1\<rparr>))"
| "step s Port_created =
     (case zHM s of
        None \<Rightarrow> s
      | Some z \<Rightarrow>
          (case thrPort z of
             None \<Rightarrow> s\<lparr>zHM := Some (z\<lparr>thrPort := Some \<lparr>onmessage = False, traffic = []\<rparr>\<rparr>)\<rparr>
           | Some p \<Rightarrow> s))"
| "step s (Worker_message m) = deliver s m"
| "step s (Engine_wrote path d) =
     (case zHM s of
        None \<Rightarrow> s
      | Some z \<Rightarrow> s\<lparr>zHM := Some (z\<lparr>FS := writeFile (FS z) path d\<rparr>)\<rparr>)"
| "step s (Window_message now data origin src) = window_onmessage s now data origin src"

definition run :: "state \<Rightarrow> event list \<Rightarrow> state" where
  "run s evs = foldl step s evs"

text \<open>The page as loaded: nothing initialised, nothing pending, nothing posted.\<close>

definition initial :: "string option \<Rightarrow> bool \<Rightarrow> state" where
  "initial allowedOriginsParam emb =
     \<lparr>allowedOrigins = allowedOrigins_of allowedOriginsParam, embedded = emb, zHM = None,
      moduleReady = False, pendingRequests = [], statusText = [], spinnerHidden = False,
      outbox = [], timers = 0\<rparr>"

text \<open>The traffic recorded on the channel, empty while there is no port.\<close>

definition channel_traffic :: "state \<Rightarrow> chan_event list" where
  "channel_traffic s =
     (case zHM s of
        None \<Rightarrow> []
      | Some z \<Rightarrow> (case thrPort z of None \<Rightarrow> [] | Some p \<Rightarrow> traffic p))"

text \<open>The input file staged at the fixed path, if any.\<close>

definition staged_input :: "state \<Rightarrow> bytes option" where
  "staged_input s = (case zHM s of None \<Rightarrow> None | Some z \<Rightarrow> map_of (FS z) ''/tmp/input'')"

text \<open>The terminal messages of a request, and the request id a message carries.\<close>

fun is_result :: "out_msg \<Rightarrow> bool" where
  "is_result (Result_msg b f r) = True"
| "is_result m = False"

fun is_error :: "out_msg \<Rightarrow> bool" where
  "is_error (Error_msg e r) = True"
| "is_error m = False"

fun msg_requestId :: "out_msg \<Rightarrow> jsval" where
  "msg_requestId (Result_msg b f r) = r"
| "msg_requestId (Error_msg e r) = r"
| "msg_requestId (Pong_msg b r) = r"
| "msg_requestId Ready_msg = JUndefined"

section \<open>Isolation Bridge: the staged upload of the service worker\<close>

text \<open>
  coi-serviceworker.js keeps one global \<open>pendingPostData\<close>.  A value of a parsed form
  is a string or a File (name, contents).  The staged object is
  \<open>{buffer, filename, format, download, fullscreen}\<close>, where \<open>format\<close> is
  \<open>formData.get("format") || "pdf"\<close>.
\<close>

datatype form_value = Text string | File string bytes

datatype post_data = Post_data bytes string form_value bool bool

text \<open>What the worker posts to a client: \<open>{type: "postData", data}\<close>.\<close>

datatype sw_reply = PostData "post_data option"

record sw_state =
  coepCredentialless :: jsval
  pendingPostData :: "post_data option"
  deregistered :: bool
  posted :: "(nat \<times> sw_reply) list"

text \<open>
  The \<open>message\<close> listener on \<open>ev.data\<close> from client \<open>ev.source\<close>: the chain of tests on
  \<open>ev.data.type\<close>, in the order of the source.
\<close>

definition sw_onmessage :: "sw_state \<Rightarrow> nat \<Rightarrow> jsval \<Rightarrow> sw_state" where
  "sw_onmessage sw client d =
     (if \<not> truthy d then sw
      else if get_prop d ''type'' = JStr ''deregister'' then sw\<lparr>deregistered := True\<rparr>
      else if get_prop d ''type'' = JStr ''coepCredentialless'' then
        sw\<lparr>coepCredentialless := get_prop d ''value''\<rparr>
      else if get_prop d ''type'' = JStr ''getPostData'' then
        (let dat = pendingPostData sw;
             sw1 = sw\<lparr>pendingPostData := None\<rparr>
         in sw1\<lparr>posted := posted sw1 @ [(client, PostData dat)]\<rparr>)
      else sw)"

text \<open>\<open>formData.get(name)\<close>: the first value of that name, or null.\<close>

definition form_get :: "(string \<times> form_value) list \<Rightarrow> string \<Rightarrow> form_value option" where
  "form_get fd name = map_of fd name"

definition staged_payload :: "(string \<times> form_value) list \<Rightarrow> string \<Rightarrow> bytes \<Rightarrow> post_data" where
  "staged_payload fd name content =
     Post_data content name
       (case form_get fd ''format'' of
          None \<Rightarrow> Text ''pdf''
        | Some (Text t) \<Rightarrow> if t = [] then Text ''pdf'' else Text t
        | Some (File n c) \<Rightarrow> File n c)
       (form_get fd ''download'' = Some (Text ''true''))
       (form_get fd ''fullscreen'' = Some (Text ''true''))"

text \<open>
  \<open>handlePostRequest\<close>: \<open>form\<close> is the parsed body (None when \<open>request.formData()\<close>
  rejects) and \<open>page_ok\<close> tells whether fetching and reading the page succeeds.  With a
  File under \<open>"file"\<close> the payload is stored and the page is served; a failure after the
  store leaves the store in place and redirects, like every other path.  Reading the
  file's bytes (\<open>file.arrayBuffer()\<close>) is taken to succeed.
\<close>

datatype response = Page | Redirect

definition handlePostRequest ::
  "sw_state \<Rightarrow> (string \<times> form_value) list option \<Rightarrow> bool \<Rightarrow> sw_state \<times> response" where
  "handlePostRequest sw form page_ok =
     (case form of
        None \<Rightarrow> (sw, Redirect)
      | Some fd \<Rightarrow>
          (case form_get fd ''file'' of
             Some (File name content) \<Rightarrow>
               (sw\<lparr>pendingPostData := Some (staged_payload fd name content)\<rparr>,
                if page_ok then Page else Redirect)
           | _ \<Rightarrow> (sw, Redirect)))"

section \<open>Example runs\<close>

text \<open>
  A page without whitelist, embedded in a parent, brought to Ready by the handshake;
  the same page with one conversion \<open>'r2'\<close> requested by window 1 and the engine's
  output stored.
\<close>

definition ready_state :: state where
  "ready_state =
     run (initial None True)
       [Init None, Start_callback, Port_created, Timer_fired,
        Worker_message Thr_started, Worker_message Ready]"

definition convert_r2 :: jsval where
  "convert_r2 =
     JObj [(''type'', JStr ''convert''), (''buffer'', JArrayBuffer [1, 2, 3, 4, 5]),
           (''format'', JStr ''pdf''), (''requestId'', JStr ''r2'')]"

definition pending_state :: state where
  "pending_state =
     run ready_state
       [Window_message 1700000000000 convert_r2 ''https://a'' (Win 1),
        Engine_wrote ''/tmp/output.pdf'' [37, 80, 68, 70]]"

text \<open>
  The ready page after window 1 has registered a conversion under the id \<open>'r1'\<close>.
\<close>

definition first_r1 :: state where
  "first_r1 =
     fst (convertDocument ready_state [1, 2, 3] (JStr ''pdf'') (JStr ''r1'') (Win 1)
            ''https://a'')"

text \<open>Whether a value is a string, the only values on which \<open>toLowerCase()\<close> can be called.\<close>

fun is_string :: "jsval \<Rightarrow> bool" where
  "is_string (JStr f) = True"
| "is_string v = False"

section \<open>The ordering of the handshake on the channel\<close>

text \<open>
  A record of channel traffic is ordered when every posted script injection has an
  earlier receipt of \<open>'ZetaHelper::thr_started'\<close>.
\<close>

definition handshake_ordered :: "chan_event list \<Rightarrow> bool" where
  "handshake_ordered tr =
     (\<forall>i<length tr. (\<exists>t. tr ! i = Send (Run_thr_script t)) \<longrightarrow>
        (\<exists>j<i. tr ! j = Recv Thr_started))"


section \<open>Field lemmas\<close>

lemma updateStatus_fields [simp]:
  "zHM (updateStatus s msg b) = zHM s"
  "moduleReady (updateStatus s msg b) = moduleReady s"
  "pendingRequests (updateStatus s msg b) = pendingRequests s"
  "outbox (updateStatus s msg b) = outbox s"
  "allowedOrigins (updateStatus s msg b) = allowedOrigins s"
  "timers (updateStatus s msg b) = timers s"
  "embedded (updateStatus s msg b) = embedded s"
  by (simp_all add: updateStatus_def)

lemma postMessage_fields [simp]:
  "zHM (postMessage s w m t) = zHM s"
  "moduleReady (postMessage s w m t) = moduleReady s"
  "pendingRequests (postMessage s w m t) = pendingRequests s"
  "outbox (postMessage s w m t) = outbox s @ [(w, m, t)]"
  "allowedOrigins (postMessage s w m t) = allowedOrigins s"
  "timers (postMessage s w m t) = timers s"
  "embedded (postMessage s w m t) = embedded s"
  by (simp_all add: postMessage_def)

lemma notifyParent_fields [simp]:
  "zHM (notifyParent s m t) = zHM s"
  "moduleReady (notifyParent s m t) = moduleReady s"
  "pendingRequests (notifyParent s m t) = pendingRequests s"
  "allowedOrigins (notifyParent s m t) = allowedOrigins s"
  "timers (notifyParent s m t) = timers s"
  by (simp_all add: notifyParent_def)

lemma read_output_Inr: "read_output s toP = Inr (z, d) \<Longrightarrow> zHM s = Some z"
  by (simp add: read_output_def split: option.splits sum.splits)

section \<open>Evaluation of the example runs\<close>

text \<open>The definitions unfolded to evaluate a run on concrete events.\<close>

lemmas model_defs =
  run_def initial_def initZetaJS_def setupMessageHandler_def deliver_def thrPort_onmessage_def
  window_onmessage_def convert_try_def convertDocument_def convert_body_def inputBuffer_of_def
  js_or_def isOriginAllowed_def getTargetOrigin_def allowedOrigins_of_def updateStatus_def
  postMessage_def notifyParent_def port_post_def writeFile_def readFile_def unlink_def
  cleanup_def read_output_def lookup_or_def formatExtensions_def mimeTypes_def toLowerCase_def
  Map_get_def Map_set_def Map_delete_def new_Blob_def printable_def
  lower_char_def Let_def

lemma ready_state_eq:
  "ready_state =
     \<lparr>allowedOrigins = None, embedded = True,
      zHM = Some \<lparr>thrPort = Some \<lparr>onmessage = True,
                     traffic = [Recv Thr_started, Send (Run_thr_script ''module''), Recv Ready]\<rparr>,
                  FS = []\<rparr>,
      moduleReady = True, pendingRequests = [],
      statusText = ''Ready for document conversion'', spinnerHidden = True,
      outbox = [(Parent, Ready_msg, ''*'')], timers = 0\<rparr>"
  by (simp add: ready_state_def model_defs)

section \<open>Worker Handshake: the script injection follows thr_started\<close>

lemma traffic_simps [simp]:
  "channel_traffic (updateStatus s msg b) = channel_traffic s"
  "channel_traffic (postMessage s w m t) = channel_traffic s"
  "channel_traffic (notifyParent s m t) = channel_traffic s"
  "channel_traffic (s\<lparr>pendingRequests := p\<rparr>) = channel_traffic s"
  "channel_traffic (s\<lparr>moduleReady := r\<rparr>) = channel_traffic s"
  "channel_traffic (s\<lparr>timers := n\<rparr>) = channel_traffic s"
  by (simp_all add: channel_traffic_def)

lemma traffic_FS:
  "zHM s = Some z \<Longrightarrow> channel_traffic (s\<lparr>zHM := Some (z\<lparr>FS := fs\<rparr>)\<rparr>) = channel_traffic s"
  by (simp add: channel_traffic_def)

lemma traffic_handleWorkerMessage:
  "channel_traffic (handleWorkerMessage s m) = channel_traffic s"
proof (cases m)
  case (Converted fromP toP fmt rid)
  show ?thesis
  proof (cases "Map_get (pendingRequests s) rid")
    case None
    with Converted show ?thesis by simp
  next
    case (Some request)
    show ?thesis
    proof (cases "read_output s toP")
      case (Inl err)
      with Converted Some show ?thesis by simp
    next
      case (Inr zd)
      obtain z d where zd: "zd = (z, d)" by (cases zd)
      from Inr zd have z: "zHM s = Some z" by (simp add: read_output_Inr)
      from Converted Some Inr zd show ?thesis
        by (simp add: Let_def traffic_FS [OF z])
    qed
  qed
next
  case (Worker_error err rid)
  then show ?thesis
    by (cases "Map_get (pendingRequests s) rid") (simp_all add: Let_def)
qed simp_all


lemma ordered_Nil: "handshake_ordered []"
  by (simp add: handshake_ordered_def)

lemma ordered_snoc:
  assumes "handshake_ordered tr"
    and "(\<exists>t. e = Send (Run_thr_script t)) \<Longrightarrow> Recv Thr_started \<in> set tr"
  shows "handshake_ordered (tr @ [e])"
  unfolding handshake_ordered_def
proof (intro allI impI)
  fix i
  assume i: "i < length (tr @ [e])" and run: "\<exists>t. (tr @ [e]) ! i = Send (Run_thr_script t)"
  show "\<exists>j<i. (tr @ [e]) ! j = Recv Thr_started"
  proof (cases "i < length tr")
    case True
    with run have "\<exists>t. tr ! i = Send (Run_thr_script t)" by (simp add: nth_append)
    with assms(1) True obtain j where j: "j < i" "tr ! j = Recv Thr_started"
      unfolding handshake_ordered_def by blast
    with True have "(tr @ [e]) ! j = Recv Thr_started" by (simp add: nth_append)
    with j show ?thesis by blast
  next
    case False
    with i have eq: "i = length tr" by simp
    with run have "\<exists>t. e = Send (Run_thr_script t)" by simp
    from assms(2) [OF this] obtain j where j: "j < length tr" "tr ! j = Recv Thr_started"
      by (auto simp: in_set_conv_nth)
    then have "(tr @ [e]) ! j = Recv Thr_started" by (simp add: nth_append)
    with j eq show ?thesis by blast
  qed
qed

lemma ordered_snoc_recv: "handshake_ordered tr \<Longrightarrow> handshake_ordered (tr @ [Recv m])"
  by (rule ordered_snoc) simp_all

lemma ordered_snoc_convert:
  "handshake_ordered tr \<Longrightarrow> handshake_ordered (tr @ [Send (Convert a b c d)])"
  by (rule ordered_snoc) simp_all

lemma ordered_snoc_injection:
  assumes "handshake_ordered tr"
  shows "handshake_ordered (tr @ [Recv Thr_started, Send c])"
proof -
  have "handshake_ordered ((tr @ [Recv Thr_started]) @ [Send c])"
    by (rule ordered_snoc) (simp_all add: assms ordered_snoc_recv)
  then show ?thesis by simp
qed

lemma traffic_setup: "channel_traffic (setupMessageHandler s) = channel_traffic s"
proof (cases "zHM s")
  case None
  then show ?thesis by (simp add: setupMessageHandler_def)
next
  case (Some z)
  then show ?thesis
    by (cases "thrPort z") (simp_all add: setupMessageHandler_def channel_traffic_def)
qed

lemma traffic_init:
  "channel_traffic (fst (initZetaJS s f)) = channel_traffic s
   \<or> channel_traffic (fst (initZetaJS s f)) = []"
  by (cases f) (simp_all add: initZetaJS_def Let_def channel_traffic_def)

lemma traffic_convert_body:
  assumes "zHM s = Some z"
  shows "channel_traffic (fst (convert_body s z ab fmt rid src tgt)) = channel_traffic s
   \<or> (\<exists>a b c d. channel_traffic (fst (convert_body s z ab fmt rid src tgt)) =
         channel_traffic s @ [Send (Convert a b c d)])"
proof (cases fmt)
  case (JStr f)
  show ?thesis
  proof (cases "thrPort z")
    case None
    with JStr assms show ?thesis
      by (simp add: convert_body_def Let_def channel_traffic_def)
  next
    case (Some p)
    with JStr assms show ?thesis
      by (simp add: convert_body_def Let_def channel_traffic_def port_post_def)
  qed
qed (simp_all add: convert_body_def)

lemma traffic_convertDocument:
  "channel_traffic (fst (convertDocument s ab fmt rid src tgt)) = channel_traffic s
   \<or> (\<exists>a b c d. channel_traffic (fst (convertDocument s ab fmt rid src tgt)) =
         channel_traffic s @ [Send (Convert a b c d)])"
proof (cases "moduleReady s")
  case False
  then show ?thesis by (simp add: convertDocument_def)
next
  case True
  show ?thesis
  proof (cases "zHM s")
    case None
    with True show ?thesis by (simp add: convertDocument_def)
  next
    case (Some z)
    let ?s1 = "updateStatus s ''Converting document...'' True"
    obtain s2 r where cb: "convert_body ?s1 z ab fmt rid src tgt = (s2, r)"
      by (cases "convert_body ?s1 z ab fmt rid src tgt")
    have "zHM ?s1 = Some z" using Some by simp
    from traffic_convert_body [OF this, of ab fmt rid src tgt] cb
    have s2: "channel_traffic s2 = channel_traffic s
       \<or> (\<exists>a b c d. channel_traffic s2 = channel_traffic s @ [Send (Convert a b c d)])"
      by simp
    have "channel_traffic (fst (convertDocument s ab fmt rid src tgt)) = channel_traffic s2"
      using True Some cb by (cases r) (simp_all add: convertDocument_def Let_def)
    with s2 show ?thesis by simp
  qed
qed

lemma traffic_convert_try:
  "channel_traffic (fst (convert_try s now data src tgt)) = channel_traffic s
   \<or> (\<exists>a b c d. channel_traffic (fst (convert_try s now data src tgt)) =
         channel_traffic s @ [Send (Convert a b c d)])"
proof (cases "truthy (inputBuffer_of data)")
  case False
  then show ?thesis by (simp add: convert_try_def)
next
  case True
  show ?thesis
  proof (cases "to_arrayBuffer (inputBuffer_of data)")
    case None
    with True show ?thesis by (simp add: convert_try_def)
  next
    case (Some ab)
    with True traffic_convertDocument show ?thesis by (simp add: convert_try_def Let_def)
  qed
qed

lemma traffic_window:
  "channel_traffic (window_onmessage s now data origin src) = channel_traffic s
   \<or> (\<exists>a b c d. channel_traffic (window_onmessage s now data origin src) =
         channel_traffic s @ [Send (Convert a b c d)])"
proof -
  let ?tgt = "getTargetOrigin origin"
  obtain s' r where ct: "convert_try s now data src ?tgt = (s', r)"
    by (cases "convert_try s now data src ?tgt")
  from traffic_convert_try [of s now data src ?tgt] ct
  have s': "channel_traffic s' = channel_traffic s
     \<or> (\<exists>a b c d. channel_traffic s' = channel_traffic s @ [Send (Convert a b c d)])"
    by simp
  have "channel_traffic (window_onmessage s now data origin src) = channel_traffic s
      \<or> channel_traffic (window_onmessage s now data origin src) = channel_traffic s'"
    using ct by (cases r) (simp_all add: window_onmessage_def Let_def)
  with s' show ?thesis by auto
qed

lemma traffic_deliver:
  "channel_traffic (deliver s m) = channel_traffic s
   \<or> channel_traffic (deliver s m) = channel_traffic s @ [Recv m]
   \<or> (\<exists>c. channel_traffic (deliver s m) = (channel_traffic s @ [Recv Thr_started]) @ [Send c])"
proof (cases "zHM s")
  case None
  then show ?thesis by (simp add: deliver_def)
next
  case z: (Some z)
  show ?thesis
  proof (cases "thrPort z")
    case None
    with z show ?thesis by (simp add: deliver_def)
  next
    case p: (Some p)
    show ?thesis
    proof (cases "onmessage p")
      case False
      with z p show ?thesis by (simp add: deliver_def)
    next
      case True
      let ?s1 = "s\<lparr>zHM := Some (z\<lparr>thrPort := Some (p\<lparr>traffic := traffic p @ [Recv m]\<rparr>)\<rparr>)\<rparr>"
      have d: "deliver s m = thrPort_onmessage ?s1 m"
        using z p True by (simp add: deliver_def)
      have t1: "channel_traffic ?s1 = channel_traffic s @ [Recv m]"
        using z p by (simp add: channel_traffic_def)
      show ?thesis
      proof (cases "m = Thr_started")
        case True
        then have "channel_traffic (thrPort_onmessage ?s1 m) =
            (channel_traffic s @ [Recv Thr_started]) @ [Send (Run_thr_script ''module'')]"
          using z p by (simp add: thrPort_onmessage_def channel_traffic_def port_post_def)
        with d show ?thesis by simp
      next
        case False
        then have "thrPort_onmessage ?s1 m = handleWorkerMessage ?s1 m"
          by (cases m) (simp_all add: thrPort_onmessage_def)
        with d t1 show ?thesis by (simp add: traffic_handleWorkerMessage)
      qed
    qed
  qed
qed

lemma step_ordered:
  assumes "handshake_ordered (channel_traffic s)"
  shows "handshake_ordered (channel_traffic (step s ev))"
proof (cases ev)
  case (Init f)
  with assms traffic_init [of s f] show ?thesis by (auto simp: ordered_Nil)
next
  case Start_callback
  with assms show ?thesis by (simp add: traffic_setup)
next
  case Timer_fired
  with assms show ?thesis by (simp add: traffic_setup)
next
  case Port_created
  have "channel_traffic (step s Port_created) = channel_traffic s"
  proof (cases "zHM s")
    case None
    then show ?thesis by simp
  next
    case (Some z)
    then show ?thesis by (cases "thrPort z") (simp_all add: channel_traffic_def)
  qed
  with Port_created assms show ?thesis by simp
next
  case (Worker_message m)
  from traffic_deliver [of s m] assms have "handshake_ordered (channel_traffic (deliver s m))"
    by (auto simp: ordered_snoc_recv ordered_snoc_injection)
  with Worker_message show ?thesis by simp
next
  case (Engine_wrote path d)
  have "channel_traffic (step s (Engine_wrote path d)) = channel_traffic s"
    by (cases "zHM s") (simp_all add: channel_traffic_def)
  with Engine_wrote assms show ?thesis by simp
next
  case (Window_message now data origin src)
  from traffic_window [of s now data origin src] assms
  have "handshake_ordered (channel_traffic (window_onmessage s now data origin src))"
    by (auto simp: ordered_snoc_convert)
  with Window_message show ?thesis by simp
qed

lemma run_ordered:
  "handshake_ordered (channel_traffic s) \<Longrightarrow> handshake_ordered (channel_traffic (run s evs))"
  unfolding run_def
  by (induction evs arbitrary: s) (simp_all add: step_ordered)


text \<open>
  C5.  Whatever events reach the page after it is loaded, on the channel every post of
  the script-injection directive (cmd \<open>'ZetaHelper::run_thr_script'\<close>) comes after a
  receipt of \<open>'ZetaHelper::thr_started'\<close>: at every position of the recorded traffic
  holding the directive there is an earlier position holding the receipt.
\<close>

theorem injection_after_thr_started:
  "\<forall>i<length (channel_traffic (run (initial p emb) evs)).
     (\<exists>t. channel_traffic (run (initial p emb) evs) ! i = Send (Run_thr_script t)) \<longrightarrow>
     (\<exists>j<i. channel_traffic (run (initial p emb) evs) ! j = Recv Thr_started)"
proof -
  have "handshake_ordered (channel_traffic (initial p emb))"
    by (simp add: channel_traffic_def initial_def ordered_Nil)
  then have "handshake_ordered (channel_traffic (run (initial p emb) evs))"
    by (rule run_ordered)
  then show ?thesis by (simp add: handshake_ordered_def)
qed

text \<open>
  In the example handshake the directive is the second entry of the traffic, right
  after the receipt of thr_started.
\<close>

theorem injection_after_thr_started_witness:
  "channel_traffic ready_state ! 1 = Send (Run_thr_script ''module'')
   \<and> channel_traffic ready_state ! 0 = Recv Thr_started"
  using injection_after_thr_started [of None True
      "[Init None, Start_callback, Port_created, Timer_fired,
        Worker_message Thr_started, Worker_message Ready]"]
  by (simp add: ready_state_eq channel_traffic_def)

section \<open>Origin Gate\<close>

text \<open>
  C6.  \<open>isOriginAllowed\<close> is true for every origin when no whitelist was configured
  (the \<open>origins\<close> parameter absent gives no whitelist), true for the origin \<open>"null"\<close>
  whatever the whitelist, and otherwise true exactly when the origin is an element of
  the whitelist.
\<close>

theorem origin_gate:
  "allowedOrigins_of None = None
   \<and> isOriginAllowed None origin
   \<and> isOriginAllowed ao ''null''
   \<and> (origin \<noteq> ''null'' \<longrightarrow> isOriginAllowed (Some wl) origin = (origin \<in> set wl))"
  by (simp add: isOriginAllowed_def allowedOrigins_of_def split: option.split)

text \<open>
  With the whitelist \<open>?origins=https://a\<close>: \<open>https://a\<close> is allowed, \<open>https://b\<close> is
  not, \<open>null\<close> is.
\<close>

theorem origin_gate_witness:
  "allowedOrigins_of (Some ''https://a'') = Some [''https://a'']
   \<and> isOriginAllowed (Some [''https://a'']) ''https://a''
   \<and> \<not> isOriginAllowed (Some [''https://a'']) ''https://b''
   \<and> isOriginAllowed (Some [''https://a'']) ''null''"
  using origin_gate [of "''https://a''" "Some [''https://a'']" "[''https://a'']"]
        origin_gate [of "''https://b''" "Some [''https://a'']" "[''https://a'']"]
  by (simp add: allowedOrigins_of_def trim_def is_space_def)

section \<open>Request Ledger\<close>

lemma pending_state_eq:
  "pending_state =
     \<lparr>allowedOrigins = None, embedded = True,
      zHM = Some \<lparr>thrPort = Some \<lparr>onmessage = True,
                     traffic = [Recv Thr_started, Send (Run_thr_script ''module''), Recv Ready,
                                Send (Convert ''/tmp/input'' ''/tmp/output.pdf'' ''pdf'' (JStr ''r2''))]\<rparr>,
                  FS = [(''/tmp/input'', [1, 2, 3, 4, 5]), (''/tmp/output.pdf'', [37, 80, 68, 70])]\<rparr>,
      moduleReady = True,
      pendingRequests = [(JStr ''r2'', \<lparr>source = Win 1, targetOrigin = ''https://a'', format = ''pdf''\<rparr>)],
      statusText = ''Converting document...'', spinnerHidden = False,
      outbox = [(Parent, Ready_msg, ''*'')], timers = 0\<rparr>"
  by (simp add: pending_state_def ready_state_eq convert_r2_def model_defs)

lemma first_r1_eq:
  "first_r1 =
     \<lparr>allowedOrigins = None, embedded = True,
      zHM = Some \<lparr>thrPort = Some \<lparr>onmessage = True,
                     traffic = [Recv Thr_started, Send (Run_thr_script ''module''), Recv Ready,
                                Send (Convert ''/tmp/input'' ''/tmp/output.pdf'' ''pdf'' (JStr ''r1''))]\<rparr>,
                  FS = [(''/tmp/input'', [1, 2, 3])]\<rparr>,
      moduleReady = True,
      pendingRequests = [(JStr ''r1'', \<lparr>source = Win 1, targetOrigin = ''https://a'', format = ''pdf''\<rparr>)],
      statusText = ''Converting document...'', spinnerHidden = False,
      outbox = [(Parent, Ready_msg, ''*'')], timers = 0\<rparr>"
  by (simp add: first_r1_def ready_state_eq model_defs)

lemma handleWorkerMessage_absent:
  "map_of (pendingRequests s) requestId = None \<Longrightarrow>
   handleWorkerMessage s (Converted fromP toP fmt requestId) = s
   \<and> handleWorkerMessage s (Worker_error err requestId) = s"
  by (simp add: Map_get_def)

lemma handleWorkerMessage_object_id:
  "\<not> primitive requestId \<Longrightarrow>
   handleWorkerMessage s (Converted fromP toP fmt requestId) = s
   \<and> handleWorkerMessage s (Worker_error err requestId) = s"
  by (simp add: Map_get_def)

text \<open>
  An example: window 1 registers a conversion under the object id \<open>{a: 1}\<close>; the
  entry is in the ledger, and the worker's reply with (a clone of) that id finds no
  entry and changes nothing.
\<close>

lemma object_id_never_resolved:
  "pendingRequests (window_onmessage ready_state 1700000000000
      (JObj [(''type'', JStr ''convert''), (''buffer'', JArrayBuffer [1, 2, 3]),
             (''requestId'', JObj [(''a'', JNum 1)])]) ''https://a'' (Win 1)) =
     [(JObj [(''a'', JNum 1)],
       \<lparr>source = Win 1, targetOrigin = ''https://a'', format = ''pdf''\<rparr>)]
   \<and> handleWorkerMessage
       (window_onmessage ready_state 1700000000000
          (JObj [(''type'', JStr ''convert''), (''buffer'', JArrayBuffer [1, 2, 3]),
                 (''requestId'', JObj [(''a'', JNum 1)])]) ''https://a'' (Win 1))
       (Converted ''/tmp/input'' ''/tmp/output.pdf'' ''pdf'' (JObj [(''a'', JNum 1)])) =
     window_onmessage ready_state 1700000000000
       (JObj [(''type'', JStr ''convert''), (''buffer'', JArrayBuffer [1, 2, 3]),
              (''requestId'', JObj [(''a'', JNum 1)])]) ''https://a'' (Win 1)"
  by (simp add: ready_state_eq handleWorkerMessage_object_id model_defs)

lemma converted_present:
  assumes "map_of (pendingRequests s) requestId = Some request" "primitive requestId"
  shows "\<exists>msg s1. handleWorkerMessage s (Converted fromP toP fmt requestId) =
            s1\<lparr>outbox := outbox s @ [(source request, msg, targetOrigin request)],
                pendingRequests := AList.delete requestId (pendingRequests s)\<rparr>
          \<and> is_result msg \<noteq> is_error msg \<and> msg_requestId msg = requestId"
proof (cases "read_output s toP")
  case (Inl err)
  with assms show ?thesis
    by (intro exI [of _ "Error_msg (message err) requestId"] exI [of _ s])
       (simp add: postMessage_def Map_get_def Map_delete_def)
next
  case (Inr zd)
  obtain z d where zd: "zd = (z, d)" by (cases zd)
  let ?blob = "new_Blob d (lookup_or mimeTypes fmt ''application/octet-stream'')"
  from assms Inr zd show ?thesis
    by (intro exI [of _ "Result_msg ?blob fmt requestId"]
          exI [of _ "updateStatus (s\<lparr>zHM := Some (z\<lparr>FS := cleanup (FS z) fromP toP\<rparr>)\<rparr>) ''Conversion complete'' False"])
       (simp add: postMessage_def updateStatus_def Let_def Map_get_def Map_delete_def)
qed

lemma error_present:
  assumes "map_of (pendingRequests s) requestId = Some request" "primitive requestId"
  shows "handleWorkerMessage s (Worker_error err requestId) =
            (updateStatus s (''Conversion error: '' @ err) False)
              \<lparr>outbox := outbox s @ [(source request, Error_msg err requestId, targetOrigin request)],
                pendingRequests := AList.delete requestId (pendingRequests s)\<rparr>"
  using assms by (simp add: postMessage_def updateStatus_def Let_def Map_get_def Map_delete_def)

lemma reply_present:
  assumes "map_of (pendingRequests s) requestId = Some request"
    and "m = Converted fromP toP fmt requestId \<or> m = Worker_error err requestId"
    and "primitive requestId"
  shows "\<exists>msg. outbox (handleWorkerMessage s m) =
             outbox s @ [(source request, msg, targetOrigin request)]
           \<and> is_result msg \<noteq> is_error msg \<and> msg_requestId msg = requestId
           \<and> pendingRequests (handleWorkerMessage s m) =
               AList.delete requestId (pendingRequests s)"
  using assms(2)
proof
  assume m: "m = Converted fromP toP fmt requestId"
  from converted_present [OF assms(1,3), of fromP toP fmt] obtain msg s1 where
    "handleWorkerMessage s m =
       s1\<lparr>outbox := outbox s @ [(source request, msg, targetOrigin request)],
           pendingRequests := AList.delete requestId (pendingRequests s)\<rparr>"
    "is_result msg \<noteq> is_error msg" "msg_requestId msg = requestId"
    unfolding m by blast
  then show ?thesis by (intro exI [of _ msg]) simp
next
  assume m: "m = Worker_error err requestId"
  show ?thesis
    unfolding m error_present [OF assms(1,3)]
    by (intro exI [of _ "Error_msg err requestId"]) simp
qed

text \<open>
  C1.  Let \<open>requestId\<close> be a primitive value (a string, a number, ...: the ids that
  the Map compares by value, so that the id of a worker's reply can match a registered
  one).  When the ledger holds an entry for \<open>requestId\<close> and the worker's reply for
  that id (\<open>'converted'\<close> or \<open>'error'\<close>) is handled, exactly one message is posted, to
  the entry's source at the entry's targetOrigin; it is a \<open>'result'\<close> or else an
  \<open>'error'\<close> message and carries the id.  Afterwards the ledger has no entry for the
  id, and a second reply for the same id changes nothing.  (A reply whose id is an
  object matches no entry: \<open>handleWorkerMessage_object_id\<close>.)
\<close>

theorem registered_request_resolved_once:
  assumes "primitive requestId"
    and "map_of (pendingRequests s) requestId = Some request"
    and "m = Converted fromP toP fmt requestId \<or> m = Worker_error err requestId"
  shows "(\<exists>msg. outbox (handleWorkerMessage s m) =
              outbox s @ [(source request, msg, targetOrigin request)]
            \<and> is_result msg \<noteq> is_error msg \<and> msg_requestId msg = requestId)
       \<and> map_of (pendingRequests (handleWorkerMessage s m)) requestId = None
       \<and> handleWorkerMessage (handleWorkerMessage s m) (Converted fromP' toP' fmt' requestId) =
           handleWorkerMessage s m
       \<and> handleWorkerMessage (handleWorkerMessage s m) (Worker_error err' requestId) =
           handleWorkerMessage s m"
proof -
  from reply_present [OF assms(2,3,1)] obtain msg where
    out: "outbox (handleWorkerMessage s m) =
            outbox s @ [(source request, msg, targetOrigin request)]"
    and kind: "is_result msg \<noteq> is_error msg" "msg_requestId msg = requestId"
    and led: "pendingRequests (handleWorkerMessage s m) =
                AList.delete requestId (pendingRequests s)"
    by blast
  from led have gone: "map_of (pendingRequests (handleWorkerMessage s m)) requestId = None"
    by (simp add: delete_conv')
  from out kind gone handleWorkerMessage_absent [OF gone] show ?thesis by blast
qed

text \<open>
  The pending conversion \<open>'r2'\<close> of window 1, resolved by the worker's \<open>'converted'\<close>:
  one result message to window 1, and the ledger entry is gone.
\<close>

theorem registered_request_resolved_once_witness:
  "primitive (JStr ''r2'')
   \<and> map_of (pendingRequests pending_state) (JStr ''r2'') =
     Some \<lparr>source = Win 1, targetOrigin = ''https://a'', format = ''pdf''\<rparr>
   \<and> outbox (handleWorkerMessage pending_state
               (Converted ''/tmp/input'' ''/tmp/output.pdf'' ''pdf'' (JStr ''r2''))) =
       [(Parent, Ready_msg, ''*''),
        (Win 1, Result_msg \<lparr>blob_data = [37, 80, 68, 70], blob_type = ''application/pdf''\<rparr>
                  ''pdf'' (JStr ''r2''), ''https://a'')]
   \<and> map_of (pendingRequests (handleWorkerMessage pending_state
               (Converted ''/tmp/input'' ''/tmp/output.pdf'' ''pdf'' (JStr ''r2'')))) (JStr ''r2'') = None"
  using registered_request_resolved_once [where s = pending_state
      and requestId = "JStr ''r2''"
      and request = "\<lparr>source = Win 1, targetOrigin = ''https://a'', format = ''pdf''\<rparr>"
      and m = "Converted ''/tmp/input'' ''/tmp/output.pdf'' ''pdf'' (JStr ''r2'')"
      and fromP = "''/tmp/input''" and toP = "''/tmp/output.pdf''" and fmt = "''pdf''"
      and err = "''''"]
  by (simp add: pending_state_eq model_defs)

lemma deliver_absent:
  assumes "map_of (pendingRequests s) requestId = None"
    and "m = Converted fromP toP fmt requestId \<or> m = Worker_error err requestId"
  shows "outbox (deliver s m) = outbox s \<and> pendingRequests (deliver s m) = pendingRequests s"
proof (cases "zHM s")
  case None
  then show ?thesis by (simp add: deliver_def)
next
  case z: (Some z)
  show ?thesis
  proof (cases "thrPort z")
    case None
    with z show ?thesis by (simp add: deliver_def)
  next
    case p: (Some p)
    show ?thesis
    proof (cases "onmessage p")
      case False
      with z p show ?thesis by (simp add: deliver_def)
    next
      case True
      let ?s1 = "s\<lparr>zHM := Some (z\<lparr>thrPort := Some (p\<lparr>traffic := traffic p @ [Recv m]\<rparr>)\<rparr>)\<rparr>"
      have d: "deliver s m = thrPort_onmessage ?s1 m"
        using z p True by (simp add: deliver_def)
      have "map_of (pendingRequests ?s1) requestId = None" using assms(1) by simp
      from handleWorkerMessage_absent [OF this] assms(2)
      have "handleWorkerMessage ?s1 m = ?s1" by blast
      moreover have "thrPort_onmessage ?s1 m = handleWorkerMessage ?s1 m"
        using assms(2) by (auto simp: thrPort_onmessage_def)
      ultimately show ?thesis using d by simp
    qed
  qed
qed

text \<open>
  C2.  A worker reply (\<open>'converted'\<close> or \<open>'error'\<close>) whose requestId is not in the
  ledger is a no-op: \<open>handleWorkerMessage\<close> returns the state as it was (nothing
  posted, nothing thrown, ledger unchanged), and delivered through the port's handler it
  leaves the posted messages and the ledger as they were.
\<close>

theorem stale_reply_ignored:
  assumes "map_of (pendingRequests s) requestId = None"
    and "m = Converted fromP toP fmt requestId \<or> m = Worker_error err requestId"
  shows "handleWorkerMessage s m = s
       \<and> outbox (deliver s m) = outbox s
       \<and> pendingRequests (deliver s m) = pendingRequests s"
  using handleWorkerMessage_absent [OF assms(1)] deliver_absent [OF assms] assms(2) by blast

text \<open>A late error reply for the unknown id \<open>'r9'\<close> while \<open>'r2'\<close> is pending.\<close>

theorem stale_reply_ignored_witness:
  "map_of (pendingRequests pending_state) (JStr ''r9'') = None
   \<and> handleWorkerMessage pending_state (Worker_error ''late'' (JStr ''r9'')) = pending_state
   \<and> outbox (deliver pending_state (Worker_error ''late'' (JStr ''r9''))) = [(Parent, Ready_msg, ''*'')]"
  using stale_reply_ignored [of pending_state "JStr ''r9''" "Worker_error ''late'' (JStr ''r9'')"
      "''''" "''''" "''''" "''late''"]
  by (simp add: pending_state_eq)

section \<open>Convert requests on the window\<close>

lemma convertDocument_not_ready:
  "\<not> moduleReady s \<or> zHM s = None \<Longrightarrow>
   convertDocument s ab fmt rid src tgt = (s, Some (Error ''ZetaJS not initialized''))"
  by (cases "moduleReady s"; cases "zHM s") (simp_all add: convertDocument_def)

lemma map_of_Map_set:
  "map_of (Map_set k v m) k' = (if k' = k then Some v else map_of m k')"
  by (simp add: Map_set_def update_conv')

lemma convert_body_success:
  assumes "convert_body s z ab fmt rid src tgt = (s', None)"
  shows "\<exists>f. fmt = JStr f
            \<and> pendingRequests s' =
                Map_set rid \<lparr>source = src, targetOrigin = tgt, format = f\<rparr>
                  (pendingRequests s)"
proof (cases fmt)
  case (JStr f)
  with assms show ?thesis
    by (cases "thrPort z") (auto simp: convert_body_def Let_def)
qed (use assms in \<open>simp_all add: convert_body_def\<close>)

lemma convertDocument_success:
  assumes "convertDocument s ab fmt rid src tgt = (s', None)"
  shows "\<exists>f. fmt = JStr f
            \<and> pendingRequests s' =
                Map_set rid \<lparr>source = src, targetOrigin = tgt, format = f\<rparr>
                  (pendingRequests s)"
proof (cases "moduleReady s")
  case False
  with assms show ?thesis by (simp add: convertDocument_not_ready)
next
  case True
  show ?thesis
  proof (cases "zHM s")
    case None
    with assms show ?thesis by (simp add: convertDocument_not_ready)
  next
    case (Some z)
    let ?s1 = "updateStatus s ''Converting document...'' True"
    obtain s2 r where cb: "convert_body ?s1 z ab fmt rid src tgt = (s2, r)"
      by (cases "convert_body ?s1 z ab fmt rid src tgt")
    with assms True Some have "r = None" "s2 = s'"
      by (cases r; simp add: convertDocument_def Let_def)+
    with cb convert_body_success [of ?s1 z ab fmt rid src tgt s'] show ?thesis by simp
  qed
qed

text \<open>
  C3 as stated fails: after window 2 registers under the id \<open>'r1'\<close> that window 1 has
  already registered, the entry is the one of window 2, not the first one.
\<close>

theorem first_registration_wins_counterexample:
  "map_of (pendingRequests first_r1) (JStr ''r1'') =
     Some \<lparr>source = Win 1, targetOrigin = ''https://a'', format = ''pdf''\<rparr>
   \<and> map_of (pendingRequests
         (fst (convertDocument first_r1 [9, 9] (JStr ''docx'') (JStr ''r1'') (Win 2)
                 ''https://b''))) (JStr ''r1'') =
     Some \<lparr>source = Win 2, targetOrigin = ''https://b'', format = ''docx''\<rparr>"
  by (simp add: first_r1_eq model_defs)

text \<open>
  C3, amended.  A call of \<open>convertDocument\<close> that completes registers its own entry
  under \<open>requestId\<close>, whether or not the id was present before (the last registration
  wins), and leaves the entries of all other ids as they were.
\<close>

theorem last_registration_wins:
  assumes "convertDocument s ab fmt requestId src tgt = (s', None)"
  shows "\<exists>f. fmt = JStr f
            \<and> map_of (pendingRequests s') requestId =
                Some \<lparr>source = src, targetOrigin = tgt, format = f\<rparr>
            \<and> (\<forall>k. k \<noteq> requestId \<longrightarrow>
                  map_of (pendingRequests s') k = map_of (pendingRequests s) k)"
proof -
  from convertDocument_success [OF assms] obtain f where
    "fmt = JStr f"
    "pendingRequests s' =
       Map_set requestId \<lparr>source = src, targetOrigin = tgt, format = f\<rparr>
         (pendingRequests s)"
    by blast
  then show ?thesis by (intro exI [of _ f]) (simp add: map_of_Map_set)
qed

text \<open>The second registration of \<open>'r1'\<close>, by window 2, replaces the entry of window 1.\<close>

theorem last_registration_wins_witness:
  "snd (convertDocument first_r1 [9, 9] (JStr ''docx'') (JStr ''r1'') (Win 2) ''https://b'') = None
   \<and> map_of (pendingRequests first_r1) (JStr ''r1'') =
       Some \<lparr>source = Win 1, targetOrigin = ''https://a'', format = ''pdf''\<rparr>
   \<and> map_of (pendingRequests
         (fst (convertDocument first_r1 [9, 9] (JStr ''docx'') (JStr ''r1'') (Win 2)
                 ''https://b''))) (JStr ''r1'') =
       Some \<lparr>source = Win 2, targetOrigin = ''https://b'', format = ''docx''\<rparr>"
  using last_registration_wins [of first_r1 "[9, 9]" "JStr ''docx''" "JStr ''r1''" "Win 2"
      "''https://b''"
      "fst (convertDocument first_r1 [9, 9] (JStr ''docx'') (JStr ''r1'') (Win 2) ''https://b'')"]
  by (simp add: first_r1_eq model_defs)

lemma window_convert:
  assumes "isOriginAllowed (allowedOrigins s) origin" "truthy data"
    "get_prop data ''type'' = JStr ''convert''"
  shows "window_onmessage s now data origin src =
     (case convert_try s now data src (getTargetOrigin origin) of
        (s', None) \<Rightarrow> s'
      | (s', Some error) \<Rightarrow>
          postMessage s' src (Error_msg (message error) (get_prop data ''requestId''))
            (getTargetOrigin origin))"
  using assms by (simp add: window_onmessage_def Let_def)

lemma convert_try_invalid:
  assumes "to_arrayBuffer (inputBuffer_of data) = None"
  shows "convert_try s now data src tgt =
     (s, Some (Error (if truthy (inputBuffer_of data)
                      then ''Invalid buffer type: expected ArrayBuffer or TypedArray''
                      else ''No document buffer provided'')))"
  using assms by (simp add: convert_try_def Let_def)

lemma to_arrayBuffer_truthy: "to_arrayBuffer v = Some ab \<Longrightarrow> truthy v"
  by (cases v) simp_all

lemma convert_try_valid:
  assumes "to_arrayBuffer (inputBuffer_of data) = Some ab"
  shows "convert_try s now data src tgt =
     convertDocument s ab (js_or (get_prop data ''format'') (JStr ''pdf''))
       (js_or (get_prop data ''requestId'') (JStr (toString_nat now))) src tgt"
  using assms to_arrayBuffer_truthy [OF assms] by (simp add: convert_try_def Let_def)

text \<open>
  C4 as stated fails: before initialisation, a convert request whose payload is the
  string \<open>"hello"\<close> is answered with the invalid-buffer error, not with the
  not-initialized error.
\<close>

theorem not_initialized_error_counterexample:
  "\<not> isReady (initial None True)
   \<and> outbox (window_onmessage (initial None True) 1700000000000
        (JObj [(''type'', JStr ''convert''), (''buffer'', JStr ''hello''),
               (''requestId'', JStr ''r1'')]) ''https://a'' (Win 1)) =
     [(Win 1, Error_msg ''Invalid buffer type: expected ArrayBuffer or TypedArray''
                (JStr ''r1''), ''https://a'')]"
  by (simp add: isReady_def model_defs)

text \<open>
  C4, amended.  A convert request from an allowed origin that arrives while
  \<open>moduleReady\<close> is false or there is no engine handle is answered with exactly one
  error message to its sender, carrying \<open>data.requestId\<close>: the not-initialized error
  when the payload is an ArrayBuffer, a typed view or an object with an ArrayBuffer
  \<open>.buffer\<close>, and the payload's validation error otherwise.  Nothing else changes: the
  request is not queued, the ledger, the engine handle and its filesystem are as before.
\<close>

theorem not_ready_request_rejected:
  assumes "isOriginAllowed (allowedOrigins s) origin" "truthy data"
    "get_prop data ''type'' = JStr ''convert''"
    "\<not> moduleReady s \<or> zHM s = None"
  shows "window_onmessage s now data origin src =
           postMessage s src
             (Error_msg
                (if \<not> truthy (inputBuffer_of data) then ''No document buffer provided''
                 else if to_arrayBuffer (inputBuffer_of data) = None
                 then ''Invalid buffer type: expected ArrayBuffer or TypedArray''
                 else ''ZetaJS not initialized'')
                (get_prop data ''requestId''))
             (getTargetOrigin origin)
       \<and> pendingRequests (window_onmessage s now data origin src) = pendingRequests s
       \<and> zHM (window_onmessage s now data origin src) = zHM s
       \<and> staged_input (window_onmessage s now data origin src) = staged_input s"
proof -
  let ?e = "if \<not> truthy (inputBuffer_of data) then ''No document buffer provided''
            else if to_arrayBuffer (inputBuffer_of data) = None
            then ''Invalid buffer type: expected ArrayBuffer or TypedArray''
            else ''ZetaJS not initialized''"
  have "convert_try s now data src (getTargetOrigin origin) = (s, Some (Error ?e))"
  proof (cases "to_arrayBuffer (inputBuffer_of data)")
    case None
    then show ?thesis by (simp add: convert_try_invalid)
  next
    case (Some ab)
    with assms(4) to_arrayBuffer_truthy [OF Some] show ?thesis
      by (simp add: convert_try_valid convertDocument_not_ready)
  qed
  then have eq: "window_onmessage s now data origin src =
      postMessage s src (Error_msg ?e (get_prop data ''requestId'')) (getTargetOrigin origin)"
    by (simp add: window_convert [OF assms(1-3)])
  show ?thesis
    unfolding eq by (simp add: staged_input_def)
qed

text \<open>
  The end-to-end example: a 5-byte buffer, format pdf, id \<open>'r1'\<close>, sent before
  initialisation.
\<close>

theorem not_ready_request_rejected_witness:
  "window_onmessage (initial None True) 1700000000000
      (JObj [(''type'', JStr ''convert''), (''buffer'', JArrayBuffer [1, 2, 3, 4, 5]),
             (''format'', JStr ''pdf''), (''requestId'', JStr ''r1'')]) ''https://a'' (Win 1) =
     postMessage (initial None True) (Win 1)
       (Error_msg ''ZetaJS not initialized'' (JStr ''r1'')) ''https://a''
   \<and> pendingRequests (window_onmessage (initial None True) 1700000000000
      (JObj [(''type'', JStr ''convert''), (''buffer'', JArrayBuffer [1, 2, 3, 4, 5]),
             (''format'', JStr ''pdf''), (''requestId'', JStr ''r1'')]) ''https://a'' (Win 1)) = []
   \<and> staged_input (window_onmessage (initial None True) 1700000000000
      (JObj [(''type'', JStr ''convert''), (''buffer'', JArrayBuffer [1, 2, 3, 4, 5]),
             (''format'', JStr ''pdf''), (''requestId'', JStr ''r1'')]) ''https://a'' (Win 1)) = None"
  using not_ready_request_rejected [of "initial None True" "''https://a''"
      "JObj [(''type'', JStr ''convert''), (''buffer'', JArrayBuffer [1, 2, 3, 4, 5]),
             (''format'', JStr ''pdf''), (''requestId'', JStr ''r1'')]" 1700000000000 "Win 1"]
  by (simp add: initial_def isOriginAllowed_def allowedOrigins_of_def inputBuffer_of_def
        js_or_def getTargetOrigin_def staged_input_def)

text \<open>
  C7 as stated fails: a convert request with no payload at all (neither \<open>buffer\<close> nor
  \<open>file\<close>) is answered with \<open>'No document buffer provided'\<close>, not with the
  invalid-buffer-type error.
\<close>

theorem invalid_buffer_type_counterexample:
  "to_arrayBuffer (inputBuffer_of (JObj [(''type'', JStr ''convert''), (''requestId'', JStr ''r1'')])) = None
   \<and> outbox (window_onmessage ready_state 1700000000000
        (JObj [(''type'', JStr ''convert''), (''requestId'', JStr ''r1'')])
        ''https://a'' (Win 1)) =
     [(Parent, Ready_msg, ''*''),
      (Win 1, Error_msg ''No document buffer provided'' (JStr ''r1''), ''https://a'')]"
  by (simp add: ready_state_eq model_defs)

text \<open>
  C7, amended.  A convert request from an allowed origin whose payload
  (\<open>data.buffer || data.file\<close>) is neither an ArrayBuffer, nor a typed view, nor an
  object whose \<open>.buffer\<close> is an ArrayBuffer is answered with one error message to its
  sender: the invalid-buffer-type error when the payload is truthy, \<open>'No document buffer
  provided'\<close> when it is missing or falsy.  \<open>convertDocument\<close> is not reached: the
  ledger and everything else but the posted messages are as before.
\<close>

theorem malformed_payload_rejected:
  assumes "isOriginAllowed (allowedOrigins s) origin" "truthy data"
    "get_prop data ''type'' = JStr ''convert''"
    "to_arrayBuffer (inputBuffer_of data) = None"
  shows "window_onmessage s now data origin src =
           postMessage s src
             (Error_msg
                (if truthy (inputBuffer_of data)
                 then ''Invalid buffer type: expected ArrayBuffer or TypedArray''
                 else ''No document buffer provided'')
                (get_prop data ''requestId''))
             (getTargetOrigin origin)
       \<and> pendingRequests (window_onmessage s now data origin src) = pendingRequests s"
proof -
  have eq: "window_onmessage s now data origin src =
      postMessage s src
        (Error_msg
           (if truthy (inputBuffer_of data)
            then ''Invalid buffer type: expected ArrayBuffer or TypedArray''
            else ''No document buffer provided'')
           (get_prop data ''requestId''))
        (getTargetOrigin origin)"
    by (simp add: window_convert [OF assms(1-3)] convert_try_invalid [OF assms(4)])
  show ?thesis unfolding eq by simp
qed

text \<open>A number as payload, on the ready page with \<open>'r2'\<close> pending.\<close>

theorem malformed_payload_rejected_witness:
  "to_arrayBuffer (inputBuffer_of
      (JObj [(''type'', JStr ''convert''), (''file'', JNum 42), (''requestId'', JStr ''r3'')])) = None
   \<and> outbox (window_onmessage pending_state 1700000000000
        (JObj [(''type'', JStr ''convert''), (''file'', JNum 42), (''requestId'', JStr ''r3'')])
        ''null'' (Win 3)) =
     [(Parent, Ready_msg, ''*''),
      (Win 3, Error_msg ''Invalid buffer type: expected ArrayBuffer or TypedArray''
                (JStr ''r3''), ''*'')]
   \<and> pendingRequests (window_onmessage pending_state 1700000000000
        (JObj [(''type'', JStr ''convert''), (''file'', JNum 42), (''requestId'', JStr ''r3'')])
        ''null'' (Win 3)) =
     [(JStr ''r2'', \<lparr>source = Win 1, targetOrigin = ''https://a'', format = ''pdf''\<rparr>)]"
  using malformed_payload_rejected [of pending_state "''null''"
      "JObj [(''type'', JStr ''convert''), (''file'', JNum 42), (''requestId'', JStr ''r3'')]"
      1700000000000 "Win 3"]
  by (simp add: pending_state_eq isOriginAllowed_def inputBuffer_of_def js_or_def
        getTargetOrigin_def postMessage_def)

section \<open>What a convert request stages, and the id of its error reply\<close>

lemma staged_convert_body:
  "staged_input (fst (convert_body s z ab fmt rid src tgt)) =
     (if is_string fmt then Some ab else staged_input s)"
proof (cases fmt)
  case (JStr f)
  then show ?thesis
    by (cases "thrPort z")
       (simp_all add: convert_body_def Let_def staged_input_def writeFile_def update_conv')
qed (simp_all add: convert_body_def)

lemma staged_updateStatus [simp]: "staged_input (updateStatus s msg b) = staged_input s"
  by (simp add: staged_input_def)

lemma staged_postMessage [simp]: "staged_input (postMessage s w m t) = staged_input s"
  by (simp add: staged_input_def)

lemma staged_convertDocument:
  "staged_input (fst (convertDocument s ab fmt rid src tgt)) =
     (if moduleReady s \<and> zHM s \<noteq> None \<and> is_string fmt then Some ab else staged_input s)"
proof (cases "moduleReady s \<and> zHM s \<noteq> None")
  case False
  then show ?thesis by (auto simp: convertDocument_not_ready)
next
  case True
  then obtain z where z: "zHM s = Some z" by auto
  let ?s1 = "updateStatus s ''Converting document...'' True"
  obtain s2 r where cb: "convert_body ?s1 z ab fmt rid src tgt = (s2, r)"
    by (cases "convert_body ?s1 z ab fmt rid src tgt")
  from staged_convert_body [of ?s1 z ab fmt rid src tgt] cb
  have s2: "staged_input s2 = (if is_string fmt then Some ab else staged_input s)" by simp
  have "staged_input (fst (convertDocument s ab fmt rid src tgt)) = staged_input s2"
    using True z cb by (cases r) (simp_all add: convertDocument_def Let_def)
  with s2 True show ?thesis by simp
qed

lemma staged_window_convert:
  assumes "isOriginAllowed (allowedOrigins s) origin" "truthy data"
    "get_prop data ''type'' = JStr ''convert''"
  shows "staged_input (window_onmessage s now data origin src) =
         staged_input (fst (convert_try s now data src (getTargetOrigin origin)))"
proof -
  obtain s' r where ct: "convert_try s now data src (getTargetOrigin origin) = (s', r)"
    by (cases "convert_try s now data src (getTargetOrigin origin)")
  then show ?thesis
    by (cases r) (simp_all add: window_convert [OF assms])
qed

text \<open>
  C9.  For a convert request from an allowed origin whose payload is a typed view, the
  bytes written to \<open>/tmp/input\<close> are those of the view's whole underlying ArrayBuffer:
  they are staged whenever the page is ready and the format is a string, and otherwise
  nothing is staged.  A well-formed view with a nonzero byteOffset or a byteLength
  shorter than its buffer covers fewer bytes than are staged.
\<close>

theorem view_stages_whole_buffer:
  assumes "isOriginAllowed (allowedOrigins s) origin" "truthy data"
    "get_prop data ''type'' = JStr ''convert''"
    "inputBuffer_of data = JView buf off len"
  shows "staged_input (window_onmessage s now data origin src) =
           (if moduleReady s \<and> zHM s \<noteq> None
               \<and> is_string (js_or (get_prop data ''format'') (JStr ''pdf''))
            then Some buf else staged_input s)
       \<and> (off + len \<le> length buf \<and> (0 < off \<or> len < length buf) \<longrightarrow>
            length (view_bytes buf off len) < length buf)"
proof -
  have "to_arrayBuffer (inputBuffer_of data) = Some buf" using assms(4) by simp
  then have "staged_input (fst (convert_try s now data src (getTargetOrigin origin))) =
      (if moduleReady s \<and> zHM s \<noteq> None
          \<and> is_string (js_or (get_prop data ''format'') (JStr ''pdf''))
       then Some buf else staged_input s)"
    by (simp only: convert_try_valid staged_convertDocument)
  moreover have "off + len \<le> length buf \<and> (0 < off \<or> len < length buf) \<longrightarrow>
      length (view_bytes buf off len) < length buf"
    by (auto simp: view_bytes_def)
  ultimately show ?thesis by (simp only: staged_window_convert [OF assms(1-3)]) 
qed

text \<open>
  A two-byte view at offset 2 of a five-byte buffer, sent to the ready page: all five
  bytes are staged.
\<close>

theorem view_stages_whole_buffer_witness:
  "inputBuffer_of (JObj [(''type'', JStr ''convert''),
       (''buffer'', JView [10, 20, 30, 40, 50] 2 2), (''requestId'', JStr ''r4'')]) =
     JView [10, 20, 30, 40, 50] 2 2
   \<and> staged_input (window_onmessage ready_state 1700000000000
        (JObj [(''type'', JStr ''convert''),
               (''buffer'', JView [10, 20, 30, 40, 50] 2 2), (''requestId'', JStr ''r4'')])
        ''https://a'' (Win 1)) = Some [10, 20, 30, 40, 50]
   \<and> view_bytes [10, 20, 30, 40, 50] 2 2 = [30, 40]"
  using view_stages_whole_buffer [of ready_state "''https://a''"
      "JObj [(''type'', JStr ''convert''),
             (''buffer'', JView [10, 20, 30, 40, 50] 2 2), (''requestId'', JStr ''r4'')]"
      "[10, 20, 30, 40, 50]" 2 2 1700000000000 "Win 1"]
  by (simp add: ready_state_eq isOriginAllowed_def inputBuffer_of_def js_or_def view_bytes_def)

lemma toString_nat_example: "toString_nat 1700000000000 = ''1700000000000''"
  by (simp add: toString_nat.simps digit_def)

text \<open>
  C10.  In the convert branch of the listener, every error caught is answered with
  \<open>data.requestId\<close> as it came.  When the caller gave no requestId and the payload is
  valid, \<open>convertDocument\<close> is called with the generated id \<open>Date.now().toString()\<close>;
  yet the error reply, such as the not-initialized one, has requestId undefined, whereas
  on success the ledger entry is under the generated id and the worker's reply for it
  is answered with the generated id.
\<close>

theorem error_reply_carries_caller_id:
  assumes "isOriginAllowed (allowedOrigins s) origin" "truthy data"
    "get_prop data ''type'' = JStr ''convert''"
  shows "(\<forall>s' error. convert_try s now data src (getTargetOrigin origin) = (s', Some error) \<longrightarrow>
            window_onmessage s now data origin src =
              postMessage s' src (Error_msg (message error) (get_prop data ''requestId''))
                (getTargetOrigin origin))
       \<and> (get_prop data ''requestId'' = JUndefined \<longrightarrow>
            (\<forall>ab. to_arrayBuffer (inputBuffer_of data) = Some ab \<longrightarrow>
               convert_try s now data src (getTargetOrigin origin) =
                 convertDocument s ab (js_or (get_prop data ''format'') (JStr ''pdf''))
                   (JStr (toString_nat now)) src (getTargetOrigin origin)
               \<and> (\<not> moduleReady s \<or> zHM s = None \<longrightarrow>
                    window_onmessage s now data origin src =
                      postMessage s src (Error_msg ''ZetaJS not initialized'' JUndefined)
                        (getTargetOrigin origin))
               \<and> (\<forall>s'. convert_try s now data src (getTargetOrigin origin) = (s', None) \<longrightarrow>
                    window_onmessage s now data origin src = s'
                    \<and> (\<exists>f. map_of (pendingRequests s') (JStr (toString_nat now)) =
                             Some \<lparr>source = src, targetOrigin = getTargetOrigin origin,
                                   format = f\<rparr>)
                    \<and> (\<forall>fromP toP fmt. \<exists>msg.
                          outbox (handleWorkerMessage s'
                                    (Converted fromP toP fmt (JStr (toString_nat now)))) =
                            outbox s' @ [(src, msg, getTargetOrigin origin)]
                          \<and> msg_requestId msg = JStr (toString_nat now)))))"
proof (intro conjI allI impI)
  fix s' error
  assume "convert_try s now data src (getTargetOrigin origin) = (s', Some error)"
  then show "window_onmessage s now data origin src =
      postMessage s' src (Error_msg (message error) (get_prop data ''requestId''))
        (getTargetOrigin origin)"
    by (simp add: window_convert [OF assms])
next
  fix ab
  assume rid: "get_prop data ''requestId'' = JUndefined"
    and ab: "to_arrayBuffer (inputBuffer_of data) = Some ab"
  show ct: "convert_try s now data src (getTargetOrigin origin) =
      convertDocument s ab (js_or (get_prop data ''format'') (JStr ''pdf''))
        (JStr (toString_nat now)) src (getTargetOrigin origin)"
    by (simp add: convert_try_valid [OF ab] rid js_or_def)
  {
    assume "\<not> moduleReady s \<or> zHM s = None"
    then show "window_onmessage s now data origin src =
        postMessage s src (Error_msg ''ZetaJS not initialized'' JUndefined)
          (getTargetOrigin origin)"
      by (simp add: window_convert [OF assms] ct convertDocument_not_ready rid)
  }
  fix s'
  assume ok: "convert_try s now data src (getTargetOrigin origin) = (s', None)"
  then show "window_onmessage s now data origin src = s'"
    by (simp add: window_convert [OF assms])
  from ok ct have "convertDocument s ab (js_or (get_prop data ''format'') (JStr ''pdf''))
      (JStr (toString_nat now)) src (getTargetOrigin origin) = (s', None)"
    by simp
  from convertDocument_success [OF this] obtain f where
    led: "pendingRequests s' =
       Map_set (JStr (toString_nat now))
         \<lparr>source = src, targetOrigin = getTargetOrigin origin, format = f\<rparr>
         (pendingRequests s)"
    by blast
  then have entry: "map_of (pendingRequests s') (JStr (toString_nat now)) =
      Some \<lparr>source = src, targetOrigin = getTargetOrigin origin, format = f\<rparr>"
    by (simp add: map_of_Map_set)
  then show "\<exists>f. map_of (pendingRequests s') (JStr (toString_nat now)) =
      Some \<lparr>source = src, targetOrigin = getTargetOrigin origin, format = f\<rparr>"
    by blast
  fix fromP toP fmt
  from reply_present [OF entry, of "Converted fromP toP fmt (JStr (toString_nat now))"
      fromP toP fmt]
  show "\<exists>msg. outbox (handleWorkerMessage s'
                  (Converted fromP toP fmt (JStr (toString_nat now)))) =
          outbox s' @ [(src, msg, getTargetOrigin origin)]
        \<and> msg_requestId msg = JStr (toString_nat now)"
    by auto
qed

text \<open>
  A valid request without requestId: before initialisation the error reply has
  requestId undefined; on the ready page the entry is registered under the clock's
  reading.
\<close>

theorem error_reply_carries_caller_id_witness:
  "outbox (window_onmessage (initial None True) 1700000000000
      (JObj [(''type'', JStr ''convert''), (''buffer'', JArrayBuffer [1, 2, 3])])
      ''https://a'' (Win 1)) =
     [(Win 1, Error_msg ''ZetaJS not initialized'' JUndefined, ''https://a'')]
   \<and> pendingRequests (window_onmessage ready_state 1700000000000
      (JObj [(''type'', JStr ''convert''), (''buffer'', JArrayBuffer [1, 2, 3])])
      ''https://a'' (Win 1)) =
     [(JStr ''1700000000000'',
       \<lparr>source = Win 1, targetOrigin = ''https://a'', format = ''pdf''\<rparr>)]"
  using error_reply_carries_caller_id [of "initial None True" "''https://a''"
      "JObj [(''type'', JStr ''convert''), (''buffer'', JArrayBuffer [1, 2, 3])]"
      1700000000000 "Win 1"]
  by (simp add: ready_state_eq toString_nat_example model_defs)

section \<open>Isolation Bridge: the staged upload is a single slot, consumed once\<close>

lemma pull_postData:
  assumes "truthy d" "get_prop d ''type'' = JStr ''getPostData''"
  shows "sw_onmessage sw c d =
     sw\<lparr>pendingPostData := None, posted := posted sw @ [(c, PostData (pendingPostData sw))]\<rparr>"
  using assms by (simp add: sw_onmessage_def Let_def)

lemma store_postData:
  assumes "form_get fd ''file'' = Some (File name content)"
  shows "fst (handlePostRequest sw (Some fd) ok) =
     sw\<lparr>pendingPostData := Some (staged_payload fd name content)\<rparr>"
  using assms by (simp add: handlePostRequest_def)

text \<open>
  C8.  A \<open>getPostData\<close> pull posts the staged payload to the client and clears the
  slot.  So after a store the first pull returns the stored payload and a second pull
  returns null data; and a store over a staged payload replaces it: after two stores
  the first pull returns the second payload and the next pull null.
\<close>

theorem staged_upload_single_slot:
  assumes "truthy d" "get_prop d ''type'' = JStr ''getPostData''"
    "form_get fd1 ''file'' = Some (File n1 b1)"
    "form_get fd2 ''file'' = Some (File n2 b2)"
  shows "sw_onmessage sw c d =
           sw\<lparr>pendingPostData := None,
              posted := posted sw @ [(c, PostData (pendingPostData sw))]\<rparr>
       \<and> posted (sw_onmessage (sw_onmessage (fst (handlePostRequest sw (Some fd1) ok1)) c d) c' d) =
           posted sw @ [(c, PostData (Some (staged_payload fd1 n1 b1))), (c', PostData None)]
       \<and> pendingPostData
           (fst (handlePostRequest (fst (handlePostRequest sw (Some fd1) ok1)) (Some fd2) ok2)) =
           Some (staged_payload fd2 n2 b2)
       \<and> posted (sw_onmessage (sw_onmessage
             (fst (handlePostRequest (fst (handlePostRequest sw (Some fd1) ok1)) (Some fd2) ok2))
             c d) c' d) =
           posted sw @ [(c, PostData (Some (staged_payload fd2 n2 b2))), (c', PostData None)]"
  by (simp add: pull_postData [OF assms(1,2)] store_postData [OF assms(3)]
        store_postData [OF assms(4)])

text \<open>
  Two uploads, \<open>a.docx\<close> then \<open>b.odt\<close>, and two pulls by client 7: the first pull
  returns \<open>b.odt\<close>, the second null.
\<close>

theorem staged_upload_single_slot_witness:
  "posted (sw_onmessage (sw_onmessage
      (fst (handlePostRequest
         (fst (handlePostRequest
            \<lparr>coepCredentialless = JBool False, pendingPostData = None, deregistered = False,
             posted = []\<rparr>
            (Some [(''file'', File ''a.docx'' [1, 2]), (''format'', Text ''pdf'')]) True))
         (Some [(''file'', File ''b.odt'' [3]), (''download'', Text ''true'')]) True))
      7 (JObj [(''type'', JStr ''getPostData'')])) 7 (JObj [(''type'', JStr ''getPostData'')])) =
   [(7, PostData (Some (Post_data [3] ''b.odt'' (Text ''pdf'') True False))),
    (7, PostData None)]"
  using staged_upload_single_slot [of "JObj [(''type'', JStr ''getPostData'')]"
      "[(''file'', File ''a.docx'' [1, 2]), (''format'', Text ''pdf'')]" "''a.docx''" "[1, 2]"
      "[(''file'', File ''b.odt'' [3]), (''download'', Text ''true'')]" "''b.odt''" "[3]"
      "\<lparr>coepCredentialless = JBool False, pendingPostData = None, deregistered = False,
        posted = []\<rparr>" 7 True 7 True]
  by (simp add: form_get_def staged_payload_def)

end
